theory Spec2Isabelle
  imports Main
begin

section \<open>Python values seen by the framework registry\<close>

text \<open>
  \<^verbatim>\<open>json_logging/frameworks.py\<close> handles three kinds of Python values: framework
  names (strings, or \<^verbatim>\<open>None\<close>), classes (the adapter and configurator classes) and
  the registry dictionary. A class is given by its name and its direct bases;
  \<^verbatim>\<open>issubclass\<close> walks the bases, every class being a subclass of itself.
\<close>

datatype pyclass = PyClass (cls_name: string) (cls_bases: "pyclass list")

fun issubclass :: "pyclass \<Rightarrow> pyclass \<Rightarrow> bool" where
  "issubclass (PyClass n bs) c = (PyClass n bs = c \<or> list_ex (\<lambda>b. issubclass b c) bs)"

text \<open>
  An argument of \<^verbatim>\<open>register_framework_support\<close> is any Python object: \<^verbatim>\<open>None\<close>,
  a class, or something that is not a class (named by its \<^verbatim>\<open>repr\<close>).
\<close>

datatype pyobj = PyNone | PyCls pyclass | PyInstance string

definition is_subclass_of :: "pyobj \<Rightarrow> pyclass \<Rightarrow> bool" where
  "is_subclass_of x c = (case x of PyCls k \<Rightarrow> issubclass k c | _ \<Rightarrow> False)"

text \<open>A raised exception: its class name and its message.\<close>

datatype pyexception = PyException (exc_class: string) (exc_args: string)

abbreviation RuntimeError :: "string \<Rightarrow> pyexception" where
  "RuntimeError msg \<equiv> PyException ''RuntimeError'' msg"

subsection \<open>\<^verbatim>\<open>str.lower\<close>\<close>

text \<open>
  Framework names are ASCII identifiers (\<^verbatim>\<open>'flask'\<close>, \<^verbatim>\<open>'sanic'\<close>, ...); on ASCII,
  \<^verbatim>\<open>str.lower\<close> maps \<^verbatim>\<open>A\<close>..\<^verbatim>\<open>Z\<close> to \<^verbatim>\<open>a\<close>..\<^verbatim>\<open>z\<close> and leaves every other
  character alone.
\<close>

definition lower_char :: "char \<Rightarrow> char" where
  "lower_char c =
     (case map_of (zip ''ABCDEFGHIJKLMNOPQRSTUVWXYZ'' ''abcdefghijklmnopqrstuvwxyz'') c of
        Some l \<Rightarrow> l
      | None \<Rightarrow> c)"

definition lower :: "string \<Rightarrow> string" where
  "lower s = map lower_char s"

section \<open>The framework registry (\<^verbatim>\<open>json_logging/frameworks.py\<close>)\<close>

text \<open>
  The module starts with
  \<^verbatim>\<open>from json_logging import util, RequestAdapter, ResponseAdapter,
  AppRequestInstrumentationConfigurator, FrameworkConfigurator, _framework_support_map,
  ENABLE_JSON_LOGGING_DEBUG, _logger\<close>.
  The imported helper, base classes and flag are defined in the package's
  \<^verbatim>\<open>__init__.py\<close> and \<^verbatim>\<open>util.py\<close>; here they are parameters of the
  model. \<^verbatim>\<open>util.validate_subclass(subclass, superclass)\<close> either returns (its
  value is discarded by the caller) or raises.
\<close>

record module_imports =
  validate_subclass :: "pyobj \<Rightarrow> pyclass \<Rightarrow> pyexception + unit"
  RequestAdapter :: pyclass
  ResponseAdapter :: pyclass
  AppRequestInstrumentationConfigurator :: pyclass
  FrameworkConfigurator :: pyclass
  ENABLE_JSON_LOGGING_DEBUG :: bool

text \<open>
  The mutable objects the function touches: the dictionary
  \<^verbatim>\<open>_framework_support_map\<close> (framework name to a dictionary with four string
  keys) and the logger \<^verbatim>\<open>_logger\<close>, of which the model keeps the formatted
  messages passed to \<^verbatim>\<open>_logger.warning\<close>, oldest first.
\<close>

type_synonym support_entry = "string \<rightharpoonup> pyobj"

record module_state =
  framework_support_map :: "string \<rightharpoonup> support_entry"
  logger_warnings :: "string list"

text \<open>The dictionary literal of lines 31 to 36.\<close>

definition support_entry :: "pyobj \<Rightarrow> pyobj \<Rightarrow> pyobj \<Rightarrow> pyobj \<Rightarrow> support_entry" where
  "support_entry app_configurator app_request_instrumentation_configurator
       request_adapter_class response_adapter_class =
     [''app_configurator'' \<mapsto> app_configurator,
      ''app_request_instrumentation_configurator'' \<mapsto> app_request_instrumentation_configurator,
      ''request_adapter_class'' \<mapsto> request_adapter_class,
      ''response_adapter_class'' \<mapsto> response_adapter_class]"

text \<open>
  \<^verbatim>\<open>register_framework_support\<close>, lines 8 to 36. The result pairs the outcome of
  the call (\<open>Inl\<close> the exception raised, \<open>Inr ()\<close> a normal return) with the
  module state the call leaves behind, so that what a raising call has already
  mutated is visible. The checks run in the order of the source; the name is
  lower-cased only after them.
\<close>

definition register_framework_support ::
  "module_imports \<Rightarrow> string option \<Rightarrow> pyobj \<Rightarrow> pyobj \<Rightarrow> pyobj \<Rightarrow> pyobj \<Rightarrow>
     module_state \<Rightarrow> (pyexception + unit) \<times> module_state" where
  "register_framework_support imp name app_configurator
       app_request_instrumentation_configurator request_adapter_class
       response_adapter_class s =
     (case name of
        None \<Rightarrow> (Inl (RuntimeError ''framework name can not be null or empty''), s)
      | Some n \<Rightarrow>
          if n = [] then (Inl (RuntimeError ''framework name can not be null or empty''), s)
          else
            (case validate_subclass imp request_adapter_class (RequestAdapter imp) of
               Inl e \<Rightarrow> (Inl e, s)
             | Inr _ \<Rightarrow>
            (case validate_subclass imp response_adapter_class (ResponseAdapter imp) of
               Inl e \<Rightarrow> (Inl e, s)
             | Inr _ \<Rightarrow>
            (case validate_subclass imp app_request_instrumentation_configurator
                    (AppRequestInstrumentationConfigurator imp) of
               Inl e \<Rightarrow> (Inl e, s)
             | Inr _ \<Rightarrow>
            (case (if app_configurator \<noteq> PyNone
                   then validate_subclass imp app_configurator (FrameworkConfigurator imp)
                   else Inr ()) of
               Inl e \<Rightarrow> (Inl e, s)
             | Inr _ \<Rightarrow>
                 (let name' = lower n;
                      s' = (if framework_support_map s name' \<noteq> None
                               \<and> ENABLE_JSON_LOGGING_DEBUG imp
                            then s\<lparr>logger_warnings :=
                                     logger_warnings s @ [''Re-register framework '' @ name']\<rparr>
                            else s)
                  in (Inr (),
                      s'\<lparr>framework_support_map :=
                           (framework_support_map s')
                             (name' \<mapsto> support_entry app_configurator
                                 app_request_instrumentation_configurator
                                 request_adapter_class response_adapter_class)\<rparr>)))))))"

text \<open>
  The registry is written only by line 31, under a lower-cased name, so the keys of
  a registry that started empty are their own lower-case forms.
\<close>

definition keys_lowercase :: "module_state \<Rightarrow> bool" where
  "keys_lowercase s = (\<forall>k. framework_support_map s k \<noteq> None \<longrightarrow> lower k = k)"

subsection \<open>A concrete environment\<close>

text \<open>
  Modelled from the spec: \<^verbatim>\<open>util.validate_subclass\<close> is not among the source
  files. The specification speaks of dynamic subclass validation of the adapter
  classes, failing at registration time; the helper is taken to raise exactly when
  its first argument is not a subclass of the second (an object that is not a class
  is not a subclass of anything).
\<close>

definition util_validate_subclass :: "pyobj \<Rightarrow> pyclass \<Rightarrow> pyexception + unit" where
  "util_validate_subclass subclass superclass =
     (if is_subclass_of subclass superclass then Inr ()
      else Inl (RuntimeError (''not a subclass of '' @ cls_name superclass)))"

text \<open>
  The base classes by name, and the three Flask classes of the first registration
  of the module (line 39), each deriving from its base.
\<close>

definition json_logging_imports :: "bool \<Rightarrow> module_imports" where
  "json_logging_imports debug =
     \<lparr>validate_subclass = util_validate_subclass,
      RequestAdapter = PyClass ''RequestAdapter'' [],
      ResponseAdapter = PyClass ''ResponseAdapter'' [],
      AppRequestInstrumentationConfigurator = PyClass ''AppRequestInstrumentationConfigurator'' [],
      FrameworkConfigurator = PyClass ''FrameworkConfigurator'' [],
      ENABLE_JSON_LOGGING_DEBUG = debug\<rparr>"

definition FlaskAppRequestInstrumentationConfigurator :: pyobj where
  "FlaskAppRequestInstrumentationConfigurator =
     PyCls (PyClass ''FlaskAppRequestInstrumentationConfigurator''
              [PyClass ''AppRequestInstrumentationConfigurator'' []])"

definition FlaskRequestAdapter :: pyobj where
  "FlaskRequestAdapter = PyCls (PyClass ''FlaskRequestAdapter'' [PyClass ''RequestAdapter'' []])"

definition FlaskResponseAdapter :: pyobj where
  "FlaskResponseAdapter = PyCls (PyClass ''FlaskResponseAdapter'' [PyClass ''ResponseAdapter'' []])"

definition empty_module_state :: module_state where
  "empty_module_state = \<lparr>framework_support_map = Map.empty, logger_warnings = []\<rparr>"

text \<open>
  A configurator class for Flask (the module itself registers Flask with
  \<^verbatim>\<open>app_configurator=None\<close>), and the registry after the first registration of
  the module, \<^verbatim>\<open>register_framework_support('flask', None, ...)\<close> of line 39, run on an
  empty registry.
\<close>

definition FlaskAppConfigurator :: pyobj where
  "FlaskAppConfigurator =
     PyCls (PyClass ''FlaskAppConfigurator'' [PyClass ''FrameworkConfigurator'' []])"

definition flask_registered :: "bool \<Rightarrow> module_state" where
  "flask_registered debug =
     snd (register_framework_support (json_logging_imports debug) (Some ''flask'') PyNone
            FlaskAppRequestInstrumentationConfigurator FlaskRequestAdapter FlaskResponseAdapter
            empty_module_state)"

section \<open>The JSON formatter\<close>

text \<open>
  Of the package, only \<^verbatim>\<open>json_logging/frameworks.py\<close> is among the source files;
  the JSON formatter is exercised by \<^verbatim>\<open>tests/test_fastapi.py\<close> but lives in a
  file that is not. This section models it from the specification (sections 3 and
  4.5), one definition per sentence.
\<close>

subsection \<open>Log records and the formatter\<close>

text \<open>A JSON value, and a JSON object as a dictionary (the order of keys is not significant).\<close>

datatype json = JString string | JNumber int | JArray "json list" | JObject "(string \<times> json) list"

type_synonym json_object = "string \<rightharpoonup> json"

text \<open>
  Modelled from the spec: the view of a log record is not among the source files.
  Section 3 lists level, logger name, message, timestamp, optional exception trace,
  optional mapping of extra keys to values and optional list of tags; section 4.5
  adds the module and the file name of the log call. The timestamp and the trace are
  kept as the texts the logging layer renders them to.
\<close>

record log_record =
  rec_level :: string
  rec_logger :: string
  rec_module :: string
  rec_msg :: string
  rec_written_at :: string
  rec_exc_text :: "string option"
  rec_filename :: string
  rec_extra :: "(string \<times> json) list"
  rec_tags :: "string list option"

text \<open>
  Modelled from the spec: the formatter is not among the source files. Section 4.5:
  if the record carries extra properties under a reserved key (\<^verbatim>\<open>props\<close>), they are
  merged at the top level; otherwise the other extra keys are merged directly.
\<close>

definition extra_fields :: "log_record \<Rightarrow> json_object" where
  "extra_fields r =
     (case map_of (rec_extra r) ''props'' of
        Some (JObject kvs) \<Rightarrow> map_of kvs
      | _ \<Rightarrow> map_of (filter (\<lambda>kv. fst kv \<noteq> ''props'') (rec_extra r)))"

text \<open>
  Modelled from the spec: the optional list of tags of section 3, as a field of the
  line. The tags of a log call are this list of the record, not one of its extra
  keys.
\<close>

definition tags_field :: "log_record \<Rightarrow> json_object" where
  "tags_field r =
     (case rec_tags r of
        None \<Rightarrow> Map.empty
      | Some ts \<Rightarrow> [''tags'' \<mapsto> JArray (map JString ts)])"

text \<open>
  Modelled from the spec: section 4.5, if an exception is attached, \<^verbatim>\<open>exc_info\<close>
  (the formatted trace text) and \<^verbatim>\<open>filename\<close> (the source location of the log
  call) are added.
\<close>

definition exc_fields :: "log_record \<Rightarrow> json_object" where
  "exc_fields r =
     (case rec_exc_text r of
        None \<Rightarrow> Map.empty
      | Some t \<Rightarrow> [''exc_info'' \<mapsto> JString t, ''filename'' \<mapsto> JString (rec_filename r)])"

text \<open>
  Modelled from the spec: the seven fields every line has (section 4.5), for a record
  logged by the application (\<^verbatim>\<open>type\<close> is \<^verbatim>\<open>"log"\<close>); \<open>cid\<close> is the
  correlation id of the active context.
\<close>

definition standard_fields :: "string \<Rightarrow> log_record \<Rightarrow> json_object" where
  "standard_fields cid r =
     [''written_at'' \<mapsto> JString (rec_written_at r),
      ''level'' \<mapsto> JString (rec_level r),
      ''logger'' \<mapsto> JString (rec_logger r),
      ''module'' \<mapsto> JString (rec_module r),
      ''msg'' \<mapsto> JString (rec_msg r),
      ''type'' \<mapsto> JString ''log'',
      ''correlation_id'' \<mapsto> JString cid]"

text \<open>
  Modelled from the spec: the JSON object of one log call (section 4.5). The
  specification says that the extra properties are merged at the top level; it does
  not say which side wins when an extra key has the name of one of the formatter's
  own fields. Here the formatter's fields are written last; what is proved below of
  the two shapes of the extra mapping holds for the other order as well
  (\<open>extras_last_shapes_agree\<close>).
\<close>

definition format_log_object :: "string \<Rightarrow> log_record \<Rightarrow> json_object" where
  "format_log_object cid r =
     extra_fields r ++ tags_field r ++ exc_fields r ++ standard_fields cid r"

text \<open>The keys the formatter writes itself.\<close>

definition formatter_keys :: "string list" where
  "formatter_keys =
     [''written_at'', ''level'', ''logger'', ''module'', ''msg'', ''type'', ''correlation_id'',
      ''tags'', ''exc_info'', ''filename'']"

subsection \<open>A record of \<^verbatim>\<open>tests/test_fastapi.py\<close>\<close>

text \<open>
  \<^verbatim>\<open>GET /log/levels/debug\<close> logs \<^verbatim>\<open>"debug message"\<close> on the logger
  \<^verbatim>\<open>fastapi-test\<close> (lines 35 to 38).
\<close>

definition debug_record :: log_record where
  "debug_record =
     \<lparr>rec_level = ''DEBUG'', rec_logger = ''fastapi-test'', rec_module = ''test_fastapi'',
      rec_msg = ''debug message'', rec_written_at = ''2020-01-01T00:00:00.000Z'',
      rec_exc_text = None, rec_filename = ''test_fastapi.py'', rec_extra = [],
      rec_tags = None\<rparr>"

section \<open>Properties of the registry\<close>

lemma lower_char_idem: "lower_char (lower_char c) = lower_char c"
  unfolding lower_char_def by (simp split: option.splits if_splits)

lemma lower_idem: "lower (lower s) = lower s"
  by (simp add: lower_def lower_char_idem)

lemma lower_Nil_iff: "lower s = [] \<longleftrightarrow> s = []"
  by (simp add: lower_def)

lemma isl_util_validate_subclass:
  "isl (util_validate_subclass x c) = (\<not> is_subclass_of x c)"
  by (simp add: util_validate_subclass_def)

subsection \<open>The outcome and the final state of a call\<close>

lemma register_outcome_cases:
  "fst (register_framework_support imp name ac arc rqc rsc s) =
     (case name of
        None \<Rightarrow> Inl (RuntimeError ''framework name can not be null or empty'')
      | Some n \<Rightarrow>
          if n = [] then Inl (RuntimeError ''framework name can not be null or empty'')
          else (case validate_subclass imp rqc (RequestAdapter imp) of Inl e \<Rightarrow> Inl e | Inr _ \<Rightarrow>
               (case validate_subclass imp rsc (ResponseAdapter imp) of Inl e \<Rightarrow> Inl e | Inr _ \<Rightarrow>
               (case validate_subclass imp arc (AppRequestInstrumentationConfigurator imp) of
                  Inl e \<Rightarrow> Inl e
                | Inr _ \<Rightarrow>
               (case (if ac \<noteq> PyNone then validate_subclass imp ac (FrameworkConfigurator imp)
                      else Inr ()) of
                  Inl e \<Rightarrow> Inl e
                | Inr _ \<Rightarrow> Inr ())))))"
  by (simp add: register_framework_support_def Let_def split: option.splits sum.splits)

lemma register_success_checks:
  assumes "fst (register_framework_support imp (Some n) ac arc rqc rsc s) = Inr ()"
  shows "n \<noteq> []"
    and "validate_subclass imp rqc (RequestAdapter imp) = Inr ()"
    and "validate_subclass imp rsc (ResponseAdapter imp) = Inr ()"
    and "validate_subclass imp arc (AppRequestInstrumentationConfigurator imp) = Inr ()"
    and "ac \<noteq> PyNone \<longrightarrow> validate_subclass imp ac (FrameworkConfigurator imp) = Inr ()"
  using assms unfolding register_outcome_cases
  by (auto split: sum.splits if_splits)

lemma register_success_state:
  assumes "fst (register_framework_support imp (Some n) ac arc rqc rsc s) = Inr ()"
  shows "snd (register_framework_support imp (Some n) ac arc rqc rsc s) =
     s\<lparr>logger_warnings := logger_warnings s @
          (if framework_support_map s (lower n) \<noteq> None \<and> ENABLE_JSON_LOGGING_DEBUG imp
           then [''Re-register framework '' @ lower n] else []),
       framework_support_map :=
         (framework_support_map s)(lower n \<mapsto> support_entry ac arc rqc rsc)\<rparr>"
  using register_success_checks[OF assms]
  by (simp add: register_framework_support_def Let_def)

lemma register_error_state:
  assumes "isl (fst (register_framework_support imp name ac arc rqc rsc s))"
  shows "snd (register_framework_support imp name ac arc rqc rsc s) = s"
proof (cases name)
  case None
  then show ?thesis by (simp add: register_framework_support_def)
next
  case (Some n)
  show ?thesis
  proof (cases "fst (register_framework_support imp (Some n) ac arc rqc rsc s)")
    case (Inl e)
    then show ?thesis unfolding Some
      by (simp add: register_framework_support_def Let_def split: sum.splits if_splits)
  next
    case (Inr u)
    with assms Some show ?thesis by simp
  qed
qed

lemma empty_keys_lowercase: "keys_lowercase empty_module_state"
  by (simp add: keys_lowercase_def empty_module_state_def)

lemma register_keeps_keys_lowercase:
  assumes "keys_lowercase s"
  shows "keys_lowercase (snd (register_framework_support imp name ac arc rqc rsc s))"
proof (cases "isl (fst (register_framework_support imp name ac arc rqc rsc s))")
  case True
  with assms show ?thesis by (simp add: register_error_state)
next
  case False
  then have ok: "fst (register_framework_support imp name ac arc rqc rsc s) = Inr ()"
    by (cases "fst (register_framework_support imp name ac arc rqc rsc s)") auto
  from False obtain n where n: "name = Some n"
    by (cases name) (auto simp: register_framework_support_def)
  show ?thesis
    using assms ok unfolding n
    by (simp add: register_success_state keys_lowercase_def lower_idem)
qed

lemma json_logging_imports_validates:
  "\<forall>x c. isl (validate_subclass (json_logging_imports debug) x c) = (\<not> is_subclass_of x c)"
  by (simp add: json_logging_imports_def isl_util_validate_subclass)

lemma flask_classes_valid:
  "is_subclass_of FlaskRequestAdapter (RequestAdapter (json_logging_imports debug))"
  "is_subclass_of FlaskResponseAdapter (ResponseAdapter (json_logging_imports debug))"
  "is_subclass_of FlaskAppRequestInstrumentationConfigurator
     (AppRequestInstrumentationConfigurator (json_logging_imports debug))"
  "is_subclass_of FlaskAppConfigurator (FrameworkConfigurator (json_logging_imports debug))"
  by (simp_all add: json_logging_imports_def is_subclass_of_def FlaskRequestAdapter_def
        FlaskResponseAdapter_def FlaskAppRequestInstrumentationConfigurator_def
        FlaskAppConfigurator_def)

lemma lower_flask: "lower ''flask'' = ''flask''" "lower ''Flask'' = ''flask''"
  "lower ''FLASK'' = ''flask''"
  by (simp_all add: lower_def lower_char_def)

lemma flask_registered_eq:
  "flask_registered debug =
     \<lparr>framework_support_map =
        [''flask'' \<mapsto> support_entry PyNone FlaskAppRequestInstrumentationConfigurator
                        FlaskRequestAdapter FlaskResponseAdapter],
      logger_warnings = []\<rparr>"
  using flask_classes_valid[of debug]
  by (simp add: flask_registered_def register_framework_support_def empty_module_state_def
        json_logging_imports_def util_validate_subclass_def lower_flask)

subsection \<open>Registration fails exactly on an empty name or an invalid class\<close>

text \<open>
  Claim C3. \<^verbatim>\<open>register_framework_support\<close> raises if and only if the name is
  \<^verbatim>\<open>None\<close> or empty, or the request adapter class is not a subclass of
  \<^verbatim>\<open>RequestAdapter\<close>, or the response adapter class is not a subclass of
  \<^verbatim>\<open>ResponseAdapter\<close>, or the instrumentation configurator is not a subclass of
  \<^verbatim>\<open>AppRequestInstrumentationConfigurator\<close>, or the application configurator is
  neither \<^verbatim>\<open>None\<close> nor a subclass of \<^verbatim>\<open>FrameworkConfigurator\<close>. A call that
  raises leaves the module state as it found it, and a call that returns has stored
  the entry under the lower-cased name. The helper \<^verbatim>\<open>util.validate_subclass\<close> is
  a parameter; the hypothesis is its contract, that it raises exactly on an argument
  that is not a subclass.
\<close>

theorem register_raises_iff:
  assumes "\<forall>x c. isl (validate_subclass imp x c) = (\<not> is_subclass_of x c)"
  shows "(isl (fst (register_framework_support imp name ac arc rqc rsc s)) \<longleftrightarrow>
            (name = None \<or> name = Some []
             \<or> \<not> is_subclass_of rqc (RequestAdapter imp)
             \<or> \<not> is_subclass_of rsc (ResponseAdapter imp)
             \<or> \<not> is_subclass_of arc (AppRequestInstrumentationConfigurator imp)
             \<or> (ac \<noteq> PyNone \<and> \<not> is_subclass_of ac (FrameworkConfigurator imp))))
       \<and> (isl (fst (register_framework_support imp name ac arc rqc rsc s)) \<longrightarrow>
            snd (register_framework_support imp name ac arc rqc rsc s) = s)
       \<and> (\<not> isl (fst (register_framework_support imp name ac arc rqc rsc s)) \<longrightarrow>
            (\<exists>n. name = Some n \<and>
               framework_support_map
                   (snd (register_framework_support imp name ac arc rqc rsc s)) (lower n)
                 = Some (support_entry ac arc rqc rsc)))"
proof -
  let ?R = "register_framework_support imp name ac arc rqc rsc s"
  have v: "\<And>x c. isl (validate_subclass imp x c) = (\<not> is_subclass_of x c)"
    using assms by blast
  have a: "isl (fst ?R) \<longleftrightarrow>
            (name = None \<or> name = Some []
             \<or> \<not> is_subclass_of rqc (RequestAdapter imp)
             \<or> \<not> is_subclass_of rsc (ResponseAdapter imp)
             \<or> \<not> is_subclass_of arc (AppRequestInstrumentationConfigurator imp)
             \<or> (ac \<noteq> PyNone \<and> \<not> is_subclass_of ac (FrameworkConfigurator imp)))"
    unfolding register_outcome_cases
    using v[of rqc "RequestAdapter imp"] v[of rsc "ResponseAdapter imp"]
      v[of arc "AppRequestInstrumentationConfigurator imp"] v[of ac "FrameworkConfigurator imp"]
    by (auto split: option.splits sum.splits if_splits)
  have b: "isl (fst ?R) \<longrightarrow> snd ?R = s"
    using register_error_state by blast
  have c: "\<not> isl (fst ?R) \<longrightarrow> (\<exists>n. name = Some n \<and>
               framework_support_map (snd ?R) (lower n) = Some (support_entry ac arc rqc rsc))"
  proof
    assume h: "\<not> isl (fst ?R)"
    then have ok: "fst ?R = Inr ()" by (cases "fst ?R") auto
    from h obtain n where n: "name = Some n"
      by (cases name) (auto simp: register_framework_support_def)
    from ok n have "framework_support_map (snd ?R) (lower n) = Some (support_entry ac arc rqc rsc)"
      using register_success_state[of imp n ac arc rqc rsc s] by simp
    with n show "\<exists>n. name = Some n \<and>
               framework_support_map (snd ?R) (lower n) = Some (support_entry ac arc rqc rsc)"
      by simp
  qed
  from a b c show ?thesis by blast
qed

theorem register_raises_iff_witness:
  "(\<forall>x c. isl (validate_subclass (json_logging_imports False) x c) = (\<not> is_subclass_of x c))
   \<and> \<not> isl (fst (register_framework_support (json_logging_imports False) (Some ''flask'') PyNone
               FlaskAppRequestInstrumentationConfigurator FlaskRequestAdapter
               FlaskResponseAdapter empty_module_state))
   \<and> framework_support_map
         (snd (register_framework_support (json_logging_imports False) (Some ''flask'') PyNone
               FlaskAppRequestInstrumentationConfigurator FlaskRequestAdapter
               FlaskResponseAdapter empty_module_state)) ''flask''
       = Some (support_entry PyNone FlaskAppRequestInstrumentationConfigurator
                 FlaskRequestAdapter FlaskResponseAdapter)
   \<and> isl (fst (register_framework_support (json_logging_imports False) (Some ''flask'') PyNone
               FlaskAppRequestInstrumentationConfigurator (PyInstance ''42'')
               FlaskResponseAdapter empty_module_state))
   \<and> snd (register_framework_support (json_logging_imports False) (Some ''flask'') PyNone
               FlaskAppRequestInstrumentationConfigurator (PyInstance ''42'')
               FlaskResponseAdapter empty_module_state) = empty_module_state"
proof -
  have h: "\<forall>x c. isl (validate_subclass (json_logging_imports False) x c)
             = (\<not> is_subclass_of x c)"
    by (rule json_logging_imports_validates)
  have bad: "\<not> is_subclass_of (PyInstance ''42'') (RequestAdapter (json_logging_imports False))"
    by (simp add: is_subclass_of_def)
  show ?thesis
    using h bad lower_flask flask_classes_valid[of False]
      register_raises_iff[OF h, where name = "Some ''flask''" and ac = PyNone
        and rqc = FlaskRequestAdapter and rsc = FlaskResponseAdapter
        and arc = FlaskAppRequestInstrumentationConfigurator and s = empty_module_state]
      register_raises_iff[OF h, where name = "Some ''flask''" and ac = PyNone
        and rqc = "PyInstance ''42''" and rsc = FlaskResponseAdapter
        and arc = FlaskAppRequestInstrumentationConfigurator and s = empty_module_state]
    by simp
qed

subsection \<open>Registering a name again\<close>

text \<open>
  Claim C4, as the code has it. Let a name be a key of the registry (keys are stored
  lower-cased) and let the function be called with that name in any letter case. The
  call raises or returns exactly as it would on any other registry, so the existing
  entry is never a reason to raise. When it returns, the entry under the name is the
  one built from the new arguments, and the only message logged is the warning
  \<^verbatim>\<open>Re-register framework <name>\<close>, logged if \<^verbatim>\<open>ENABLE_JSON_LOGGING_DEBUG\<close> is
  set and not otherwise.
\<close>

theorem reregister_overwrites:
  assumes "framework_support_map s p \<noteq> None" and "lower p = p" and "lower n = lower p"
  shows "fst (register_framework_support imp (Some n) ac arc rqc rsc s)
           = fst (register_framework_support imp (Some n) ac arc rqc rsc s0)
       \<and> (fst (register_framework_support imp (Some n) ac arc rqc rsc s) = Inr () \<longrightarrow>
            framework_support_map
                (snd (register_framework_support imp (Some n) ac arc rqc rsc s)) p
              = Some (support_entry ac arc rqc rsc)
          \<and> logger_warnings (snd (register_framework_support imp (Some n) ac arc rqc rsc s))
              = logger_warnings s @
                  (if ENABLE_JSON_LOGGING_DEBUG imp
                   then [''Re-register framework '' @ p] else []))"
proof -
  let ?R = "register_framework_support imp (Some n) ac arc rqc rsc s"
  from assms have key: "lower n = p" and present: "framework_support_map s (lower n) \<noteq> None"
    by simp_all
  have a: "fst ?R = fst (register_framework_support imp (Some n) ac arc rqc rsc s0)"
    by (simp only: register_outcome_cases)
  have b: "fst ?R = Inr () \<longrightarrow>
            framework_support_map (snd ?R) p = Some (support_entry ac arc rqc rsc)
          \<and> logger_warnings (snd ?R) = logger_warnings s @
                (if ENABLE_JSON_LOGGING_DEBUG imp
                 then [''Re-register framework '' @ p] else [])"
  proof
    assume ok: "fst ?R = Inr ()"
    show "framework_support_map (snd ?R) p = Some (support_entry ac arc rqc rsc)
          \<and> logger_warnings (snd ?R) = logger_warnings s @
                (if ENABLE_JSON_LOGGING_DEBUG imp
                 then [''Re-register framework '' @ p] else [])"
      using present key by (simp add: register_success_state[OF ok])
  qed
  from a b show ?thesis by blast
qed

text \<open>
  With the debug flag set: Flask is registered, then registered again as
  \<^verbatim>\<open>'FLASK'\<close> with a configurator class. The call returns, the entry is the new
  one and one warning is logged.
\<close>

theorem reregister_overwrites_witness:
  "framework_support_map (flask_registered True) ''flask'' \<noteq> None
   \<and> lower ''flask'' = ''flask'' \<and> lower ''FLASK'' = lower ''flask''
   \<and> fst (register_framework_support (json_logging_imports True) (Some ''FLASK'')
           FlaskAppConfigurator FlaskAppRequestInstrumentationConfigurator
           FlaskRequestAdapter FlaskResponseAdapter (flask_registered True)) = Inr ()
   \<and> framework_support_map
        (snd (register_framework_support (json_logging_imports True) (Some ''FLASK'')
           FlaskAppConfigurator FlaskAppRequestInstrumentationConfigurator
           FlaskRequestAdapter FlaskResponseAdapter (flask_registered True))) ''flask''
       = Some (support_entry FlaskAppConfigurator FlaskAppRequestInstrumentationConfigurator
                 FlaskRequestAdapter FlaskResponseAdapter)
   \<and> logger_warnings
        (snd (register_framework_support (json_logging_imports True) (Some ''FLASK'')
           FlaskAppConfigurator FlaskAppRequestInstrumentationConfigurator
           FlaskRequestAdapter FlaskResponseAdapter (flask_registered True)))
       = [''Re-register framework flask'']"
proof -
  have present: "framework_support_map (flask_registered True) ''flask'' \<noteq> None"
    by (simp add: flask_registered_eq)
  have l1: "lower ''flask'' = ''flask''" and l2: "lower ''FLASK'' = lower ''flask''"
    by (simp_all add: lower_flask)
  have ok: "fst (register_framework_support (json_logging_imports True) (Some ''FLASK'')
           FlaskAppConfigurator FlaskAppRequestInstrumentationConfigurator
           FlaskRequestAdapter FlaskResponseAdapter (flask_registered True)) = Inr ()"
    using flask_classes_valid[of True]
    by (simp add: register_outcome_cases json_logging_imports_def util_validate_subclass_def)
  show ?thesis
    using present l1 l2 ok
      reregister_overwrites[OF present l1 l2, where imp = "json_logging_imports True"
        and ac = FlaskAppConfigurator and arc = FlaskAppRequestInstrumentationConfigurator
        and rqc = FlaskRequestAdapter and rsc = FlaskResponseAdapter
        and ?s0.0 = empty_module_state]
    by (simp add: flask_registered_eq json_logging_imports_def)
qed

text \<open>
  The claim as the specification words it (the re-registration is logged as a
  warning) fails when the flag is off: Flask is registered, registered again as
  \<^verbatim>\<open>'Flask'\<close>, the call returns and nothing has been logged.
\<close>

theorem reregister_silent_counterexample:
  "framework_support_map (flask_registered False) ''flask'' \<noteq> None
   \<and> lower ''Flask'' = ''flask''
   \<and> fst (register_framework_support (json_logging_imports False) (Some ''Flask'') PyNone
           FlaskAppRequestInstrumentationConfigurator FlaskRequestAdapter FlaskResponseAdapter
           (flask_registered False)) = Inr ()
   \<and> logger_warnings
        (snd (register_framework_support (json_logging_imports False) (Some ''Flask'') PyNone
           FlaskAppRequestInstrumentationConfigurator FlaskRequestAdapter FlaskResponseAdapter
           (flask_registered False))) = []"
proof -
  have ok: "fst (register_framework_support (json_logging_imports False) (Some ''Flask'') PyNone
           FlaskAppRequestInstrumentationConfigurator FlaskRequestAdapter FlaskResponseAdapter
           (flask_registered False)) = Inr ()"
    using flask_classes_valid[of False]
    by (simp add: register_outcome_cases json_logging_imports_def util_validate_subclass_def)
  have present: "framework_support_map (flask_registered False) ''flask'' \<noteq> None"
    by (simp add: flask_registered_eq)
  have l: "lower ''Flask'' = ''flask''"
    by (simp add: lower_flask)
  have quiet: "logger_warnings
        (snd (register_framework_support (json_logging_imports False) (Some ''Flask'') PyNone
           FlaskAppRequestInstrumentationConfigurator FlaskRequestAdapter FlaskResponseAdapter
           (flask_registered False))) = []"
    unfolding register_success_state[OF ok]
    by (simp add: flask_registered_eq json_logging_imports_def)
  from present l ok quiet show ?thesis by blast
qed

subsection \<open>Names are compared without regard to letter case\<close>

text \<open>
  Claim C9. Registering under a name and registering under its lower-cased form
  give the same outcome and the same module state, whatever the other arguments are;
  hence two names that differ only in letter case (they have the same lower-cased
  form) denote the same registry entry.
\<close>

theorem register_case_insensitive:
  "register_framework_support imp (Some n) ac arc rqc rsc s
     = register_framework_support imp (Some (lower n)) ac arc rqc rsc s
   \<and> (lower n1 = lower n2 \<longrightarrow>
        register_framework_support imp (Some n1) ac arc rqc rsc s
          = register_framework_support imp (Some n2) ac arc rqc rsc s)"
proof -
  have key: "register_framework_support imp (Some a) ac arc rqc rsc s
               = register_framework_support imp (Some b) ac arc rqc rsc s"
    if "lower a = lower b" for a b
  proof -
    from that have "(a = []) = (b = [])"
      by (metis lower_Nil_iff)
    with that show ?thesis
      by (simp add: register_framework_support_def Let_def split: sum.splits)
  qed
  show ?thesis using key[of n "lower n"] key[of n1 n2] by (simp add: lower_idem)
qed

theorem register_case_insensitive_witness:
  "lower ''Flask'' = lower ''FLASK''
   \<and> register_framework_support (json_logging_imports True) (Some ''Flask'') PyNone
         FlaskAppRequestInstrumentationConfigurator FlaskRequestAdapter FlaskResponseAdapter
         empty_module_state
     = register_framework_support (json_logging_imports True) (Some ''FLASK'') PyNone
         FlaskAppRequestInstrumentationConfigurator FlaskRequestAdapter FlaskResponseAdapter
         empty_module_state
   \<and> framework_support_map
        (snd (register_framework_support (json_logging_imports True) (Some ''Flask'') PyNone
         FlaskAppRequestInstrumentationConfigurator FlaskRequestAdapter FlaskResponseAdapter
         empty_module_state)) ''flask'' \<noteq> None"
proof -
  have l: "lower ''Flask'' = lower ''FLASK''"
    by (simp add: lower_flask)
  have r: "register_framework_support (json_logging_imports True) (Some ''Flask'') PyNone
         FlaskAppRequestInstrumentationConfigurator FlaskRequestAdapter FlaskResponseAdapter
         empty_module_state
     = register_framework_support (json_logging_imports True) (Some ''flask'') PyNone
         FlaskAppRequestInstrumentationConfigurator FlaskRequestAdapter FlaskResponseAdapter
         empty_module_state"
    using register_case_insensitive[where n = "''Flask''" and ?n1.0 = "''Flask''"
        and ?n2.0 = "''FLASK''" and imp = "json_logging_imports True" and ac = PyNone
        and arc = FlaskAppRequestInstrumentationConfigurator and rqc = FlaskRequestAdapter
        and rsc = FlaskResponseAdapter and s = empty_module_state]
    by (simp add: lower_flask)
  have st: "snd (register_framework_support (json_logging_imports True) (Some ''Flask'') PyNone
         FlaskAppRequestInstrumentationConfigurator FlaskRequestAdapter FlaskResponseAdapter
         empty_module_state) = flask_registered True"
    unfolding r by (simp add: flask_registered_def)
  have e: "register_framework_support (json_logging_imports True) (Some ''Flask'') PyNone
         FlaskAppRequestInstrumentationConfigurator FlaskRequestAdapter FlaskResponseAdapter
         empty_module_state
     = register_framework_support (json_logging_imports True) (Some ''FLASK'') PyNone
         FlaskAppRequestInstrumentationConfigurator FlaskRequestAdapter FlaskResponseAdapter
         empty_module_state"
    using l
      register_case_insensitive[where n = "''Flask''" and ?n1.0 = "''Flask''"
        and ?n2.0 = "''FLASK''" and imp = "json_logging_imports True" and ac = PyNone
        and arc = FlaskAppRequestInstrumentationConfigurator and rqc = FlaskRequestAdapter
        and rsc = FlaskResponseAdapter and s = empty_module_state]
    by blast
  have p: "framework_support_map (flask_registered True) ''flask'' \<noteq> None"
    by (simp add: flask_registered_eq)
  from l e p show ?thesis unfolding st by blast
qed

subsection \<open>Only the entry of the lower-cased name changes\<close>

text \<open>
  Claim C10. Whatever the call does (raise or return), the entry the registry holds
  under any key other than the lower-cased name is the one it held before the call.
\<close>

theorem register_frame:
  assumes "k \<noteq> lower n"
  shows "framework_support_map (snd (register_framework_support imp (Some n) ac arc rqc rsc s)) k
           = framework_support_map s k"
proof (cases "isl (fst (register_framework_support imp (Some n) ac arc rqc rsc s))")
  case True
  then show ?thesis by (simp add: register_error_state)
next
  case False
  then have ok: "fst (register_framework_support imp (Some n) ac arc rqc rsc s) = Inr ()"
    by (cases "fst (register_framework_support imp (Some n) ac arc rqc rsc s)") auto
  show ?thesis using assms by (simp add: register_success_state[OF ok])
qed

text \<open>
  Flask is registered; registering \<^verbatim>\<open>'Sanic'\<close> (here with the Flask classes, which
  pass the checks) returns and leaves the entry of \<^verbatim>\<open>'flask'\<close> as it was.
\<close>

theorem register_frame_witness:
  "''flask'' \<noteq> lower ''Sanic''
   \<and> fst (register_framework_support (json_logging_imports False) (Some ''Sanic'')
           FlaskAppConfigurator FlaskAppRequestInstrumentationConfigurator
           FlaskRequestAdapter FlaskResponseAdapter (flask_registered False)) = Inr ()
   \<and> framework_support_map
        (snd (register_framework_support (json_logging_imports False) (Some ''Sanic'')
           FlaskAppConfigurator FlaskAppRequestInstrumentationConfigurator
           FlaskRequestAdapter FlaskResponseAdapter (flask_registered False))) ''flask''
       = Some (support_entry PyNone FlaskAppRequestInstrumentationConfigurator
                 FlaskRequestAdapter FlaskResponseAdapter)"
proof -
  have ne: "''flask'' \<noteq> lower ''Sanic''"
    by (simp add: lower_def lower_char_def)
  have ok: "fst (register_framework_support (json_logging_imports False) (Some ''Sanic'')
           FlaskAppConfigurator FlaskAppRequestInstrumentationConfigurator
           FlaskRequestAdapter FlaskResponseAdapter (flask_registered False)) = Inr ()"
    using flask_classes_valid[of False]
    by (simp add: register_outcome_cases json_logging_imports_def util_validate_subclass_def)
  show ?thesis
    using ne ok
      register_frame[OF ne, where imp = "json_logging_imports False"
        and ac = FlaskAppConfigurator and arc = FlaskAppRequestInstrumentationConfigurator
        and rqc = FlaskRequestAdapter and rsc = FlaskResponseAdapter
        and s = "flask_registered False"]
    by (simp add: flask_registered_eq)
qed

section \<open>Properties of the formatter\<close>

lemma other_fields_extra:
  "tags_field (r\<lparr>rec_extra := x\<rparr>) = tags_field r"
  "exc_fields (r\<lparr>rec_extra := x\<rparr>) = exc_fields r"
  "standard_fields cid (r\<lparr>rec_extra := x\<rparr>) = standard_fields cid r"
  by (simp_all add: tags_field_def exc_fields_def standard_fields_def split: option.splits)

text \<open>
  Claim C7. For every log call, passing the extra mapping \<^verbatim>\<open>{"props": {k: v}}\<close>
  and passing \<^verbatim>\<open>{k: v}\<close> give the same JSON object, and that object has \<open>v\<close>
  under the top-level key \<open>k\<close>. The key is an ordinary one: not the reserved key
  \<^verbatim>\<open>props\<close> itself, and for the second part not one of the keys the formatter
  writes.
\<close>

theorem props_and_direct_extra_agree:
  assumes "k \<noteq> ''props''"
  shows "format_log_object cid (r\<lparr>rec_extra := [(''props'', JObject [(k, v)])]\<rparr>)
           = format_log_object cid (r\<lparr>rec_extra := [(k, v)]\<rparr>)
       \<and> (k \<notin> set formatter_keys \<longrightarrow>
            format_log_object cid (r\<lparr>rec_extra := [(''props'', JObject [(k, v)])]\<rparr>) k
              = Some v)"
proof -
  have e: "extra_fields (r\<lparr>rec_extra := [(''props'', JObject [(k, v)])]\<rparr>) = [k \<mapsto> v]"
    by (simp add: extra_fields_def)
  have d: "extra_fields (r\<lparr>rec_extra := [(k, v)]\<rparr>) = [k \<mapsto> v]"
    using assms by (simp add: extra_fields_def)
  have same: "format_log_object cid (r\<lparr>rec_extra := [(''props'', JObject [(k, v)])]\<rparr>)
           = format_log_object cid (r\<lparr>rec_extra := [(k, v)]\<rparr>)"
    by (simp add: format_log_object_def e d other_fields_extra)
  have top: "format_log_object cid (r\<lparr>rec_extra := [(''props'', JObject [(k, v)])]\<rparr>) k = Some v"
    if "k \<notin> set formatter_keys"
  proof -
    from that have "tags_field r k = None" "exc_fields r k = None" "standard_fields cid r k = None"
      by (auto simp: formatter_keys_def tags_field_def exc_fields_def standard_fields_def
            split: option.splits)
    then show ?thesis
      by (simp add: format_log_object_def e other_fields_extra map_add_def)
  qed
  from same top show ?thesis by blast
qed

text \<open>The key \<^verbatim>\<open>"k"\<close> and the value \<^verbatim>\<open>"v"\<close> of the claim, on the record of the test.\<close>

theorem props_and_direct_extra_agree_witness:
  "''k'' \<noteq> ''props'' \<and> ''k'' \<notin> set formatter_keys
   \<and> format_log_object ''abc-def''
         (debug_record\<lparr>rec_extra := [(''props'', JObject [(''k'', JString ''v'')])]\<rparr>)
       = format_log_object ''abc-def'' (debug_record\<lparr>rec_extra := [(''k'', JString ''v'')]\<rparr>)
   \<and> format_log_object ''abc-def''
         (debug_record\<lparr>rec_extra := [(''props'', JObject [(''k'', JString ''v'')])]\<rparr>) ''k''
       = Some (JString ''v'')"
proof -
  have a: "''k'' \<noteq> ''props''" by simp
  have b: "''k'' \<notin> set formatter_keys" by (simp add: formatter_keys_def)
  show ?thesis
    using a b
      props_and_direct_extra_agree[OF a, where cid = "''abc-def''" and r = debug_record
        and v = "JString ''v''"]
    by blast
qed

text \<open>
  The same two facts for a formatter that writes its own fields first and the extra
  ones last: the order of the merge does not matter to them, and the top-level value
  is then \<open>v\<close> for every key.
\<close>

lemma extras_last_shapes_agree:
  assumes "k \<noteq> ''props''"
  shows "standard_fields cid (r\<lparr>rec_extra := [(''props'', JObject [(k, v)])]\<rparr>)
           ++ exc_fields (r\<lparr>rec_extra := [(''props'', JObject [(k, v)])]\<rparr>)
           ++ tags_field (r\<lparr>rec_extra := [(''props'', JObject [(k, v)])]\<rparr>)
           ++ extra_fields (r\<lparr>rec_extra := [(''props'', JObject [(k, v)])]\<rparr>)
         = standard_fields cid (r\<lparr>rec_extra := [(k, v)]\<rparr>)
           ++ exc_fields (r\<lparr>rec_extra := [(k, v)]\<rparr>)
           ++ tags_field (r\<lparr>rec_extra := [(k, v)]\<rparr>)
           ++ extra_fields (r\<lparr>rec_extra := [(k, v)]\<rparr>)"
    and "(standard_fields cid (r\<lparr>rec_extra := [(''props'', JObject [(k, v)])]\<rparr>)
           ++ exc_fields (r\<lparr>rec_extra := [(''props'', JObject [(k, v)])]\<rparr>)
           ++ tags_field (r\<lparr>rec_extra := [(''props'', JObject [(k, v)])]\<rparr>)
           ++ extra_fields (r\<lparr>rec_extra := [(''props'', JObject [(k, v)])]\<rparr>)) k
         = Some v"
proof -
  have e: "extra_fields (r\<lparr>rec_extra := [(''props'', JObject [(k, v)])]\<rparr>) = [k \<mapsto> v]"
    by (simp add: extra_fields_def)
  have d: "extra_fields (r\<lparr>rec_extra := [(k, v)]\<rparr>) = [k \<mapsto> v]"
    using assms by (simp add: extra_fields_def)
  show "standard_fields cid (r\<lparr>rec_extra := [(''props'', JObject [(k, v)])]\<rparr>)
           ++ exc_fields (r\<lparr>rec_extra := [(''props'', JObject [(k, v)])]\<rparr>)
           ++ tags_field (r\<lparr>rec_extra := [(''props'', JObject [(k, v)])]\<rparr>)
           ++ extra_fields (r\<lparr>rec_extra := [(''props'', JObject [(k, v)])]\<rparr>)
         = standard_fields cid (r\<lparr>rec_extra := [(k, v)]\<rparr>)
           ++ exc_fields (r\<lparr>rec_extra := [(k, v)]\<rparr>)
           ++ tags_field (r\<lparr>rec_extra := [(k, v)]\<rparr>)
           ++ extra_fields (r\<lparr>rec_extra := [(k, v)]\<rparr>)"
    by (simp only: e d other_fields_extra)
  show "(standard_fields cid (r\<lparr>rec_extra := [(''props'', JObject [(k, v)])]\<rparr>)
           ++ exc_fields (r\<lparr>rec_extra := [(''props'', JObject [(k, v)])]\<rparr>)
           ++ tags_field (r\<lparr>rec_extra := [(''props'', JObject [(k, v)])]\<rparr>)
           ++ extra_fields (r\<lparr>rec_extra := [(''props'', JObject [(k, v)])]\<rparr>)) k
         = Some v"
    by (simp only: e other_fields_extra) simp
qed

end
